theory Spec2Isabelle
  imports Main
begin

section \<open>Values, rows, cursors and errors\<close>

text \<open>
  Bind values and column values are JavaScript values. The model keeps the shapes the
  adapter can tell apart: \<open>undefined\<close>, \<open>null\<close>, numbers, strings and arrays (an array
  passed where one bind value is expected stays one value).
\<close>

datatype val = VUndefined | VNull | VNum int | VStr string | VArr "val list"

text \<open>
  A \<open>Row\<close> is the tuple of column values of the row the cursor stands on. The adapter
  reads it by index (\<open>rows.row[0]\<close>); an index past the end is \<open>undefined\<close> in JavaScript.
\<close>

type_synonym Row = "val list"

definition column :: "Row \<Rightarrow> nat \<Rightarrow> val" where
  "column r i = (if i < length r then r ! i else VUndefined)"

text \<open>
  \<open>RecordError code message\<close> is the error the adapter raises itself, with the codes of
  class \<open>AdapterError\<close>. \<open>RequireError\<close> is what \<open>Context.require\<close> throws when the context
  has no value for the getter. \<open>External\<close> stands for any error thrown by a collaborator
  (executor, cursor, mapper); the adapter never inspects it.
\<close>

datatype error = RecordError string string | RequireError | External string

definition MISSING_STATEMENT :: string where
  "MISSING_STATEMENT = ''adapter:missing-statement''"

definition NON_QUERY :: string where
  "NON_QUERY = ''adapter:non-query''"

text \<open>
  A cursor (\<open>Rows\<close>) is what its successive \<open>next()\<close> calls will do: produce a row or
  throw. Past the end of the list \<open>next()\<close> answers \<open>false\<close>. Result sets are finite.
\<close>

datatype advance = Yields Row | Throws error

type_synonym Rows = "advance list"

fun rows_next :: "Rows \<Rightarrow> error + (Row \<times> Rows) option" where
  "rows_next [] = Inr None"
| "rows_next (Yields r # rest) = Inr (Some (r, rest))"
| "rows_next (Throws e # rest) = Inl e"

section \<open>Collaborators\<close>

text \<open>
  A \<open>ParamMap\<close> is an object from column name to filter value; the association list
  holds its own enumerable properties in enumeration order, which is the order both
  \<open>Object.keys\<close> and the flattening into an array follow.
\<close>

type_synonym ParamMap = "(string \<times> val) list"

text \<open>
  Modelled from the spec: \<open>toParamArray\<close> (module \<open>db-api\<close>, not among the sources).
  "Parameters are always flattened from the filter mapping into positional order
  matching the column-name order used to resolve/pass the SQL." An absent mapping
  gives no parameters.
\<close>

definition toParamArray :: "ParamMap option \<Rightarrow> val list" where
  "toParamArray params = (case params of None \<Rightarrow> [] | Some m \<Rightarrow> map snd m)"

record SqlSource =
  getInsertSQL :: "string option"
  getUpdateSQL :: "string option"
  getDeleteSQL :: "string option"
  getSelectSQL :: "string list \<Rightarrow> string"

text \<open>
  Modelled from the spec: \<open>MappingFlags\<close> and \<open>hasMappingFlag\<close> (module \<open>types\<close>, not
  among the sources). The mapper's \<open>flags\<close> are a "bitset: generatedId,
  generatedOnInsert, generatedOnUpdate"; the bitset is the set of its flags and
  \<open>hasMappingFlag\<close> tests one of them.
\<close>

datatype MappingFlag = generatedId | generatedOnInsert | generatedOnUpdate

definition hasMappingFlag :: "MappingFlag set \<Rightarrow> MappingFlag \<Rightarrow> bool" where
  "hasMappingFlag fs f = (f \<in> fs)"

text \<open>
  The mapper works on records of type \<open>'r\<close>. \<open>load\<close> and \<open>setKey\<close> mutate the record in
  place and may throw: they return the record as they leave it, and the error if any.
  Parameter extraction reads the record and may throw.
\<close>

record 'r RecordMapper =
  flags :: "MappingFlag set"
  create :: "'r"
  load :: "Row \<Rightarrow> 'r \<Rightarrow> 'r \<times> error option"
  setKey :: "'r \<Rightarrow> val \<Rightarrow> 'r \<times> error option"
  getInsertParams :: "'r \<Rightarrow> error + val list"
  getUpdateParams :: "'r \<Rightarrow> error + val list"
  getDeleteParams :: "'r \<Rightarrow> error + val list"

text \<open>
  The executor: \<open>exec(ctx, sql, ...params)\<close> and \<open>query(ctx, sql, ...params)\<close>. The
  context is passed by its identity; the last argument is the list of rest arguments
  the call was made with.
\<close>

record DbApi =
  exec :: "nat \<Rightarrow> string \<Rightarrow> val list \<Rightarrow> error option"
  query :: "nat \<Rightarrow> string \<Rightarrow> val list \<Rightarrow> error + Rows"

record IContext =
  ctx_id :: nat
  dbApi :: "DbApi option"

text \<open>
  \<open>Context.as(ctx).require(getDbApi)\<close>. Neither \<open>getDbApi\<close> (module \<open>context\<close>) nor
  \<open>Context\<close> (package \<open>@sabl/context\<close>) is among the sources. A required lookup answers
  with the value the context carries and throws when it carries none; the statements
  below speak of the lookup through its result, \<open>require ctx\<close>.
\<close>

definition require :: "IContext \<Rightarrow> error + DbApi" where
  "require ctx = (case dbApi ctx of None \<Rightarrow> Inl RequireError | Some db \<Rightarrow> Inr db)"

text \<open>The adapter is constructed from a statement source and a mapper, nothing else.\<close>

record 'r SqlAdapterBase =
  sqlSource :: SqlSource
  mapper :: "'r RecordMapper"

section \<open>Observable behaviour: the calls made on the collaborators\<close>

datatype event =
    GetInsertSQL
  | GetUpdateSQL
  | GetDeleteSQL
  | GetSelectSQL "string list"
  | Require
  | GetInsertParams
  | GetUpdateParams
  | GetDeleteParams
  | Exec nat string "val list"
  | Query nat string "val list"
  | Next
  | Close
  | Create
  | Load Row
  | SetKey val

text \<open>
  \<open>after pre r\<close>: the calls \<open>pre\<close> were made, then the rest of the body ran as \<open>r\<close>.
  \<open>finally_close r\<close>: \<open>try { r } finally { rows.close() }\<close>; the close is not awaited and
  the outcome of the body, value or error, stands.
\<close>

definition after :: "event list \<Rightarrow> event list \<times> 'a \<Rightarrow> event list \<times> 'a" where
  "after pre r = (pre @ fst r, snd r)"

definition finally_close :: "event list \<times> 'a \<Rightarrow> event list \<times> 'a" where
  "finally_close r = (fst r @ [Close], snd r)"

section \<open>The adapter\<close>

text \<open>
  A write operation returns the calls it made, the caller's record as the operation
  leaves it, and the error it failed with, if any.
\<close>

type_synonym 'r run = "event list \<times> 'r \<times> error option"

definition toRecord :: "'r SqlAdapterBase \<Rightarrow> Row \<Rightarrow> event list \<times> (error + 'r)" where
  "toRecord this row =
     (case load (mapper this) row (create (mapper this)) of
        (record, None) \<Rightarrow> ([Create, Load row], Inr record)
      | (record, Some e) \<Rightarrow> ([Create, Load row], Inl e))"

definition insert_op :: "'r SqlAdapterBase \<Rightarrow> IContext \<Rightarrow> 'r \<Rightarrow> 'r run" where
  "insert_op this ctx record =
     (case getInsertSQL (sqlSource this) of
        None \<Rightarrow>
          ([GetInsertSQL], record,
           Some (RecordError MISSING_STATEMENT ''INSERT SQL not defined''))
      | Some sql \<Rightarrow> after [GetInsertSQL]
         (case require ctx of
            Inl e \<Rightarrow> ([Require], record, Some e)
          | Inr db \<Rightarrow> after [Require]
             (case getInsertParams (mapper this) record of
                Inl e \<Rightarrow> ([GetInsertParams], record, Some e)
              | Inr params \<Rightarrow> after [GetInsertParams]
                 (if hasMappingFlag (flags (mapper this)) generatedOnInsert then
                    (case query db (ctx_id ctx) sql params of
                       Inl e \<Rightarrow> ([Query (ctx_id ctx) sql params], record, Some e)
                     | Inr rows \<Rightarrow> after [Query (ctx_id ctx) sql params]
                        (finally_close
                          (case rows_next rows of
                             Inl e \<Rightarrow> ([Next], record, Some e)
                           | Inr None \<Rightarrow>
                               ([Next], record,
                                Some (RecordError NON_QUERY
                                  ''Expected inserted row, but insert query returned no row''))
                           | Inr (Some (row, rest)) \<Rightarrow>
                               ([Next, Load row], load (mapper this) row record))))
                  else if hasMappingFlag (flags (mapper this)) generatedId then
                    (case query db (ctx_id ctx) sql params of
                       Inl e \<Rightarrow> ([Query (ctx_id ctx) sql params], record, Some e)
                     | Inr rows \<Rightarrow> after [Query (ctx_id ctx) sql params]
                        (finally_close
                          (case rows_next rows of
                             Inl e \<Rightarrow> ([Next], record, Some e)
                           | Inr None \<Rightarrow>
                               ([Next], record,
                                Some (RecordError NON_QUERY
                                  ''Expected generated id, but insert query returned no row''))
                           | Inr (Some (row, rest)) \<Rightarrow>
                               ([Next, SetKey (column row 0)],
                                setKey (mapper this) record (column row 0)))))
                  else
                    ([Exec (ctx_id ctx) sql params], record,
                     exec db (ctx_id ctx) sql params)))))"

definition update :: "'r SqlAdapterBase \<Rightarrow> IContext \<Rightarrow> 'r \<Rightarrow> 'r run" where
  "update this ctx record =
     (case getUpdateSQL (sqlSource this) of
        None \<Rightarrow>
          ([GetUpdateSQL], record,
           Some (RecordError MISSING_STATEMENT ''UPDATE SQL not defined''))
      | Some sql \<Rightarrow> after [GetUpdateSQL]
         (case require ctx of
            Inl e \<Rightarrow> ([Require], record, Some e)
          | Inr db \<Rightarrow> after [Require]
             (case getUpdateParams (mapper this) record of
                Inl e \<Rightarrow> ([GetUpdateParams], record, Some e)
              | Inr params \<Rightarrow> after [GetUpdateParams]
                 (if hasMappingFlag (flags (mapper this)) generatedOnUpdate then
                    (case query db (ctx_id ctx) sql params of
                       Inl e \<Rightarrow> ([Query (ctx_id ctx) sql params], record, Some e)
                     | Inr rows \<Rightarrow> after [Query (ctx_id ctx) sql params]
                        (finally_close
                          (case rows_next rows of
                             Inl e \<Rightarrow> ([Next], record, Some e)
                           | Inr None \<Rightarrow>
                               ([Next], record,
                                Some (RecordError NON_QUERY
                                  ''Expected updated row, but update query returned no row''))
                           | Inr (Some (row, rest)) \<Rightarrow>
                               ([Next, Load row], load (mapper this) row record))))
                  else
                    ([Exec (ctx_id ctx) sql params], record,
                     exec db (ctx_id ctx) sql params)))))"

text \<open>
  \<open>delete\<close> calls \<open>db.exec(ctx, sql, params)\<close>: the array of delete parameters is the one
  rest argument of the call.
\<close>

definition delete :: "'r SqlAdapterBase \<Rightarrow> IContext \<Rightarrow> 'r \<Rightarrow> 'r run" where
  "delete this ctx record =
     (case getDeleteSQL (sqlSource this) of
        None \<Rightarrow>
          ([GetDeleteSQL], record,
           Some (RecordError MISSING_STATEMENT ''DELETE SQL not defined''))
      | Some sql \<Rightarrow> after [GetDeleteSQL]
         (case require ctx of
            Inl e \<Rightarrow> ([Require], record, Some e)
          | Inr db \<Rightarrow> after [Require]
             (case getDeleteParams (mapper this) record of
                Inl e \<Rightarrow> ([GetDeleteParams], record, Some e)
              | Inr params \<Rightarrow> after [GetDeleteParams]
                 ([Exec (ctx_id ctx) sql [VArr params]], record,
                  exec db (ctx_id ctx) sql [VArr params]))))"

text \<open>
  \<open>selectOne(ctx, sqlOrParams, params?)\<close>: the first argument is either SQL text or the
  filter mapping. The result is the calls made and either the error, or the record
  (\<open>None\<close> for JavaScript's \<open>null\<close>).
\<close>

definition selectOne ::
  "'r SqlAdapterBase \<Rightarrow> IContext \<Rightarrow> string + ParamMap \<Rightarrow> ParamMap option
     \<Rightarrow> event list \<times> (error + 'r option)" where
  "selectOne this ctx sqlOrParams params0 =
     (let (pre, sql, params) =
        (case sqlOrParams of
           Inl s \<Rightarrow> ([], s, params0)
         | Inr m \<Rightarrow>
             ([GetSelectSQL (map fst m)], getSelectSQL (sqlSource this) (map fst m), Some m))
      in after pre
        (case require ctx of
           Inl e \<Rightarrow> ([Require], Inl e)
         | Inr db \<Rightarrow> after [Require]
            (case query db (ctx_id ctx) sql (toParamArray params) of
               Inl e \<Rightarrow> ([Query (ctx_id ctx) sql (toParamArray params)], Inl e)
             | Inr rows \<Rightarrow> after [Query (ctx_id ctx) sql (toParamArray params)]
                (finally_close
                  (case rows_next rows of
                     Inl e \<Rightarrow> ([Next], Inl e)
                   | Inr None \<Rightarrow> ([Next], Inr None)
                   | Inr (Some (row, rest)) \<Rightarrow> after [Next]
                      (case toRecord this row of
                         (t, Inl e) \<Rightarrow> (t, Inl e)
                       | (t, Inr record) \<Rightarrow> (t, Inr (Some record))))))))"

subsection \<open>selectMany: an async generator\<close>

text \<open>
  \<open>selectMany\<close> is an \<open>async function*\<close>: calling it runs none of its body and returns a
  generator object. The body runs when the consumer calls \<open>next()\<close>, up to the next
  \<open>yield\<close>; \<open>return()\<close> (what \<open>for await\<close> calls when its loop is left early) resumes a
  generator suspended at the \<open>yield\<close> by running the enclosing \<open>finally\<close> block.

  The generator is \<open>Fresh\<close> before its first \<open>next()\<close>, \<open>AtYield rows\<close> when suspended at
  the \<open>yield\<close> inside the loop with its cursor open, and \<open>Completed\<close> once the body has
  returned or thrown.
\<close>

datatype gen = Fresh | AtYield Rows | Completed

record 'r generator =
  g_this :: "'r SqlAdapterBase"
  g_ctx :: IContext
  g_sqlOrParams :: "string + ParamMap"
  g_params :: "ParamMap option"
  g_state :: gen

text \<open>What a call of \<open>next()\<close> or \<open>return()\<close> settles to.\<close>

datatype 'r item = Yielded 'r | Done | Rejected error

definition selectMany ::
  "'r SqlAdapterBase \<Rightarrow> IContext \<Rightarrow> string + ParamMap \<Rightarrow> ParamMap option \<Rightarrow> 'r generator" where
  "selectMany this ctx sqlOrParams params =
     \<lparr>g_this = this, g_ctx = ctx, g_sqlOrParams = sqlOrParams, g_params = params,
      g_state = Fresh\<rparr>"

definition selectAll :: "'r SqlAdapterBase \<Rightarrow> IContext \<Rightarrow> 'r generator" where
  "selectAll this ctx = selectMany this ctx (Inr []) None"

text \<open>
  One turn of \<open>while (await rows.next()) { yield this.toRecord(rows.row); }\<close> inside
  \<open>try { ... } finally { rows.close(); }\<close>, from the loop test to the next suspension
  or to the end of the body: the calls made, what \<open>next()\<close> settles to, and the state
  the generator is left in.
\<close>

definition loop_step :: "'r SqlAdapterBase \<Rightarrow> Rows \<Rightarrow> event list \<times> 'r item \<times> gen" where
  "loop_step this rows =
     (case rows_next rows of
        Inl e \<Rightarrow> finally_close ([Next], Rejected e, Completed)
      | Inr None \<Rightarrow> finally_close ([Next], Done, Completed)
      | Inr (Some (row, rest)) \<Rightarrow> after [Next]
         (case toRecord this row of
            (t, Inl e) \<Rightarrow> finally_close (t, Rejected e, Completed)
          | (t, Inr record) \<Rightarrow> (t, Yielded record, AtYield rest)))"

definition gen_body :: "'r generator \<Rightarrow> event list \<times> 'r item \<times> gen" where
  "gen_body g =
     (case g_state g of
        Fresh \<Rightarrow>
          (let (pre, sql, params) =
             (case g_sqlOrParams g of
                Inl s \<Rightarrow> ([], s, g_params g)
              | Inr m \<Rightarrow>
                  ([GetSelectSQL (map fst m)],
                   getSelectSQL (sqlSource (g_this g)) (map fst m), Some m))
           in after pre
             (case require (g_ctx g) of
                Inl e \<Rightarrow> ([Require], Rejected e, Completed)
              | Inr db \<Rightarrow> after [Require]
                 (case query db (ctx_id (g_ctx g)) sql (toParamArray params) of
                    Inl e \<Rightarrow>
                      ([Query (ctx_id (g_ctx g)) sql (toParamArray params)],
                       Rejected e, Completed)
                  | Inr rows \<Rightarrow> after [Query (ctx_id (g_ctx g)) sql (toParamArray params)]
                     (loop_step (g_this g) rows))))
      | AtYield rows \<Rightarrow> loop_step (g_this g) rows
      | Completed \<Rightarrow> ([], Done, Completed))"

definition gen_next :: "'r generator \<Rightarrow> event list \<times> 'r item \<times> 'r generator" where
  "gen_next g =
     (case gen_body g of (t, it, st) \<Rightarrow> (t, it, g\<lparr>g_state := st\<rparr>))"

definition gen_return :: "'r generator \<Rightarrow> event list \<times> 'r item \<times> 'r generator" where
  "gen_return g =
     (case g_state g of
        Fresh \<Rightarrow> ([], Done, g\<lparr>g_state := Completed\<rparr>)
      | AtYield rows \<Rightarrow> ([Close], Done, g\<lparr>g_state := Completed\<rparr>)
      | Completed \<Rightarrow> ([], Done, g))"

text \<open>
  A consumer is the sequence of calls it makes on the generator. \<open>for await\<close> calls
  \<open>next()\<close> until it settles to done or rejects, and \<open>return()\<close> when the loop body
  breaks or throws.
\<close>

datatype action = Pull | Return

definition act :: "action \<Rightarrow> 'r generator \<Rightarrow> event list \<times> 'r item \<times> 'r generator" where
  "act a g = (case a of Pull \<Rightarrow> gen_next g | Return \<Rightarrow> gen_return g)"

fun consume :: "action list \<Rightarrow> 'r generator \<Rightarrow> event list \<times> 'r item list \<times> 'r generator" where
  "consume [] g = ([], [], g)"
| "consume (a # as) g =
     (case act a g of (t, it, g') \<Rightarrow>
        (case consume as g' of (t', its, g'') \<Rightarrow> (t @ t', it # its, g'')))"

section \<open>Example collaborators\<close>

text \<open>
  A record with a key and a name; a mapper over it whose loads succeed, and one whose
  loads throw; a statement source; an executor that answers every query with a given
  cursor; a context with that executor and one without any.
\<close>

type_synonym person = "val \<times> val"

definition exMapper :: "MappingFlag set \<Rightarrow> person RecordMapper" where
  "exMapper fs =
     \<lparr>flags = fs,
      create = (VNull, VNull),
      load = (\<lambda>row p. ((column row 0, column row 1), None)),
      setKey = (\<lambda>p k. ((k, snd p), None)),
      getInsertParams = (\<lambda>p. Inr [snd p]),
      getUpdateParams = (\<lambda>p. Inr [snd p, fst p]),
      getDeleteParams = (\<lambda>p. Inr [fst p, snd p])\<rparr>"

definition exBadMapper :: "MappingFlag set \<Rightarrow> person RecordMapper" where
  "exBadMapper fs = (exMapper fs)\<lparr>load := (\<lambda>row p. (p, Some (External ''load'')))\<rparr>"

definition exSource :: SqlSource where
  "exSource =
     \<lparr>getInsertSQL = Some ''INSERT ... RETURNING id'',
      getUpdateSQL = Some ''UPDATE ...'',
      getDeleteSQL = Some ''DELETE ...'',
      getSelectSQL = (\<lambda>cols. ''SELECT ... BY '' @ concat cols)\<rparr>"

definition exNoSource :: SqlSource where
  "exNoSource =
     \<lparr>getInsertSQL = None, getUpdateSQL = None, getDeleteSQL = None,
      getSelectSQL = (\<lambda>cols. ''SELECT ... BY '' @ concat cols)\<rparr>"

definition exDb :: "Rows \<Rightarrow> DbApi" where
  "exDb rows = \<lparr>exec = (\<lambda>c s ps. None), query = (\<lambda>c s ps. Inr rows)\<rparr>"

definition exCtx :: "Rows \<Rightarrow> IContext" where
  "exCtx rows = \<lparr>ctx_id = 1, dbApi = Some (exDb rows)\<rparr>"

definition exNoDbCtx :: IContext where
  "exNoDbCtx = \<lparr>ctx_id = 1, dbApi = None\<rparr>"

definition exAdapter :: "MappingFlag set \<Rightarrow> person SqlAdapterBase" where
  "exAdapter fs = \<lparr>sqlSource = exSource, mapper = exMapper fs\<rparr>"

definition exBadAdapter :: "MappingFlag set \<Rightarrow> person SqlAdapterBase" where
  "exBadAdapter fs = \<lparr>sqlSource = exSource, mapper = exBadMapper fs\<rparr>"

definition exNoSqlAdapter :: "MappingFlag set \<Rightarrow> person SqlAdapterBase" where
  "exNoSqlAdapter fs = \<lparr>sqlSource = exNoSource, mapper = exMapper fs\<rparr>"

section \<open>Vocabulary of the statements\<close>

text \<open>Kinds of calls in a trace.\<close>

fun is_query :: "event \<Rightarrow> bool" where
  "is_query (Query c s ps) = True"
| "is_query e = False"

fun is_exec :: "event \<Rightarrow> bool" where
  "is_exec (Exec c s ps) = True"
| "is_exec e = False"

fun is_cursor_call :: "event \<Rightarrow> bool" where
  "is_cursor_call (Query c s ps) = True"
| "is_cursor_call Next = True"
| "is_cursor_call Close = True"
| "is_cursor_call e = False"

fun is_record_write :: "event \<Rightarrow> bool" where
  "is_record_write (Load r) = True"
| "is_record_write (SetKey k) = True"
| "is_record_write e = False"

text \<open>
  \<open>opened ctx t\<close>: how many cursors the calls of \<open>t\<close> opened, that is, how many of its
  \<open>query\<close> calls the executor of \<open>ctx\<close> answered with a cursor rather than an error.
\<close>

definition returns_cursor :: "DbApi \<Rightarrow> event \<Rightarrow> bool" where
  "returns_cursor db e =
     (case e of
        Query c s ps \<Rightarrow> (case query db c s ps of Inl err \<Rightarrow> False | Inr rows \<Rightarrow> True)
      | _ \<Rightarrow> False)"

definition opened :: "IContext \<Rightarrow> event list \<Rightarrow> nat" where
  "opened ctx t =
     (case require ctx of Inl e \<Rightarrow> 0 | Inr db \<Rightarrow> length (filter (returns_cursor db) t))"

text \<open>\<open>in_use g\<close>: the cursors a generator holds open while suspended at its \<open>yield\<close>.\<close>

fun suspended :: "gen \<Rightarrow> bool" where
  "suspended (AtYield rows) = True"
| "suspended st = False"

definition in_use :: "'r generator \<Rightarrow> nat" where
  "in_use g = (if suspended (g_state g) then 1 else 0)"

text \<open>
  The two call shapes of \<open>selectOne\<close> and \<open>selectMany\<close>: the statement-source call made
  before the executor is looked up, the SQL text sent, and the bind values sent.
\<close>

definition select_pre :: "string + ParamMap \<Rightarrow> event list" where
  "select_pre sqlOrParams =
     (case sqlOrParams of Inl s \<Rightarrow> [] | Inr m \<Rightarrow> [GetSelectSQL (map fst m)])"

definition select_sql :: "'r SqlAdapterBase \<Rightarrow> string + ParamMap \<Rightarrow> string" where
  "select_sql this sqlOrParams =
     (case sqlOrParams of
        Inl s \<Rightarrow> s
      | Inr m \<Rightarrow> getSelectSQL (sqlSource this) (map fst m))"

definition select_params :: "string + ParamMap \<Rightarrow> ParamMap option \<Rightarrow> val list" where
  "select_params sqlOrParams params0 =
     toParamArray (case sqlOrParams of Inl s \<Rightarrow> params0 | Inr m \<Rightarrow> Some m)"

text \<open>
  What \<open>toRecord\<close> does for a row whose load succeeds: the calls of one loop turn, the
  record it returns (a record just created, then loaded), and the condition that the
  load does not throw.
\<close>

definition row_calls :: "Row \<Rightarrow> event list" where
  "row_calls r = [Next, Create, Load r]"

definition loaded :: "'r SqlAdapterBase \<Rightarrow> Row \<Rightarrow> 'r" where
  "loaded this r = fst (load (mapper this) r (create (mapper this)))"

definition loads_ok :: "'r SqlAdapterBase \<Rightarrow> Row \<Rightarrow> bool" where
  "loads_ok this r = (snd (load (mapper this) r (create (mapper this))) = None)"

section \<open>Properties\<close>

lemmas ex_defs = exAdapter_def exMapper_def exSource_def exDb_def exCtx_def exNoDbCtx_def
  exBadAdapter_def exBadMapper_def exNoSqlAdapter_def exNoSource_def

lemmas seq_defs = after_def finally_close_def

subsection \<open>Missing statements\<close>

text \<open>
  C5. When the statement source has no statement for \<open>insert\<close>, \<open>update\<close> or \<open>delete\<close>,
  the call fails with the missing-statement error; asking the statement source is the
  only call made (the executor is not looked up, no parameters are extracted, nothing
  is executed, neither \<open>load\<close> nor \<open>setKey\<close> runs) and the record is returned as it was
  given. This holds for every context, with or without a database API.
\<close>

theorem missing_statement_aborts:
  "(getInsertSQL (sqlSource this) = None \<longrightarrow>
      insert_op this ctx record =
        ([GetInsertSQL], record,
         Some (RecordError MISSING_STATEMENT ''INSERT SQL not defined'')))
   \<and> (getUpdateSQL (sqlSource this) = None \<longrightarrow>
      update this ctx record =
        ([GetUpdateSQL], record,
         Some (RecordError MISSING_STATEMENT ''UPDATE SQL not defined'')))
   \<and> (getDeleteSQL (sqlSource this) = None \<longrightarrow>
      delete this ctx record =
        ([GetDeleteSQL], record,
         Some (RecordError MISSING_STATEMENT ''DELETE SQL not defined'')))"
  by (simp add: insert_op_def update_def delete_def)

theorem missing_statement_aborts_witness:
  "getInsertSQL (sqlSource (exNoSqlAdapter {generatedId})) = None
   \<and> getUpdateSQL (sqlSource (exNoSqlAdapter {generatedId})) = None
   \<and> getDeleteSQL (sqlSource (exNoSqlAdapter {generatedId})) = None
   \<and> insert_op (exNoSqlAdapter {generatedId}) (exCtx []) (VNull, VStr ''ann'') =
        ([GetInsertSQL], (VNull, VStr ''ann''),
         Some (RecordError ''adapter:missing-statement'' ''INSERT SQL not defined''))
   \<and> update (exNoSqlAdapter {generatedId}) (exCtx []) (VNull, VStr ''ann'') =
        ([GetUpdateSQL], (VNull, VStr ''ann''),
         Some (RecordError ''adapter:missing-statement'' ''UPDATE SQL not defined''))
   \<and> delete (exNoSqlAdapter {generatedId}) (exCtx []) (VNull, VStr ''ann'') =
        ([GetDeleteSQL], (VNull, VStr ''ann''),
         Some (RecordError ''adapter:missing-statement'' ''DELETE SQL not defined''))"
  using missing_statement_aborts
    [of "exNoSqlAdapter {generatedId}" "exCtx []" "(VNull, VStr ''ann'')"]
  by (simp add: ex_defs MISSING_STATEMENT_def)

subsection \<open>Delete\<close>

lemma delete_calls:
  assumes "getDeleteSQL (sqlSource this) = Some sql" and "require ctx = Inr db"
    and "getDeleteParams (mapper this) record = Inr ps"
  shows "delete this ctx record =
           ([GetDeleteSQL, Require, GetDeleteParams, Exec (ctx_id ctx) sql [VArr ps]],
            record, exec db (ctx_id ctx) sql [VArr ps])"
  using assms by (simp add: delete_def seq_defs)

text \<open>
  C1. \<open>delete\<close> resolves the statement, looks the executor up, extracts the delete
  parameters and issues one \<open>exec\<close> and no \<open>query\<close>. For the record with key 7 and name
  "ann", whose delete parameters are the two values 7 and "ann", the executor is called
  with one bind value, the array of both; it is not called with the two values as two
  positional parameters, which is what \<open>insert\<close> and \<open>update\<close> do with theirs.
\<close>

theorem delete_binds_one_array:
  "delete (exAdapter {}) (exCtx []) (VNum 7, VStr ''ann'') =
     ([GetDeleteSQL, Require, GetDeleteParams,
       Exec 1 ''DELETE ...'' [VArr [VNum 7, VStr ''ann'']]],
      (VNum 7, VStr ''ann''), None)
   \<and> getDeleteParams (mapper (exAdapter {})) (VNum 7, VStr ''ann'')
       = Inr [VNum 7, VStr ''ann'']
   \<and> fst (delete (exAdapter {}) (exCtx []) (VNum 7, VStr ''ann'')) \<noteq>
       [GetDeleteSQL, Require, GetDeleteParams, Exec 1 ''DELETE ...'' [VNum 7, VStr ''ann'']]
   \<and> fst (update (exAdapter {}) (exCtx []) (VNum 7, VStr ''ann'')) =
       [GetUpdateSQL, Require, GetUpdateParams, Exec 1 ''UPDATE ...'' [VStr ''ann'', VNum 7]]"
  by (simp add: delete_def update_def seq_defs require_def hasMappingFlag_def ex_defs)

subsection \<open>Insert and update\<close>

text \<open>
  C9. When the mapper's flags have neither \<open>generatedOnInsert\<close> nor \<open>generatedId\<close>,
  \<open>insert\<close> never calls \<open>load\<close> or \<open>setKey\<close>, makes no cursor call (\<open>query\<close>, \<open>next\<close>,
  \<open>close\<close>), issues at most one \<open>exec\<close> and leaves the record as given. When the statement
  is defined, the context has an executor and the insert parameters are extracted, the
  calls are exactly: statement lookup, executor lookup, parameter extraction, one \<open>exec\<close>
  with the parameters spread; the outcome is the executor's.
\<close>

theorem insert_without_generation:
  assumes "\<not> hasMappingFlag (flags (mapper this)) generatedOnInsert"
    and "\<not> hasMappingFlag (flags (mapper this)) generatedId"
  shows "filter is_record_write (fst (insert_op this ctx record)) = []
    \<and> filter is_cursor_call (fst (insert_op this ctx record)) = []
    \<and> length (filter is_exec (fst (insert_op this ctx record))) \<le> 1
    \<and> fst (snd (insert_op this ctx record)) = record
    \<and> (getInsertSQL (sqlSource this) = Some sql \<and> require ctx = Inr db
         \<and> getInsertParams (mapper this) record = Inr ps \<longrightarrow>
       insert_op this ctx record =
         ([GetInsertSQL, Require, GetInsertParams, Exec (ctx_id ctx) sql ps],
          record, exec db (ctx_id ctx) sql ps))"
  using assms by (simp add: insert_op_def seq_defs split: option.splits sum.splits)

theorem insert_without_generation_witness:
  "\<not> hasMappingFlag (flags (mapper (exAdapter {generatedOnUpdate}))) generatedOnInsert
   \<and> \<not> hasMappingFlag (flags (mapper (exAdapter {generatedOnUpdate}))) generatedId
   \<and> insert_op (exAdapter {generatedOnUpdate}) (exCtx []) (VNull, VStr ''ann'') =
       ([GetInsertSQL, Require, GetInsertParams,
         Exec 1 ''INSERT ... RETURNING id'' [VStr ''ann'']],
        (VNull, VStr ''ann''), None)"
  using insert_without_generation [of "exAdapter {generatedOnUpdate}" "exCtx []"
      "(VNull, VStr ''ann'')" "''INSERT ... RETURNING id''" "exDb []" "[VStr ''ann'']"]
  by (simp add: ex_defs hasMappingFlag_def require_def)

text \<open>
  C3. With \<open>generatedId\<close> and without \<open>generatedOnInsert\<close>, once the statement, the
  executor and the parameters are there and the executor answers the query with a
  cursor: if the cursor has no row, \<open>insert\<close> fails with the non-query error, \<open>setKey\<close> is
  not called, the cursor is closed and the record is as given; if the cursor has a row,
  the calls are one \<open>query\<close>, one \<open>next\<close>, one \<open>setKey\<close> with column 0 of that row, one
  \<open>close\<close>, and no \<open>exec\<close>; record and outcome are those of \<open>setKey\<close>. Column 0 of a row
  with at least one column is its first value.
\<close>

theorem insert_generated_id:
  assumes "getInsertSQL (sqlSource this) = Some sql" and "require ctx = Inr db"
    and "getInsertParams (mapper this) record = Inr ps"
    and "hasMappingFlag (flags (mapper this)) generatedId"
    and "\<not> hasMappingFlag (flags (mapper this)) generatedOnInsert"
    and "query db (ctx_id ctx) sql ps = Inr rows"
  shows "(rows_next rows = Inr None \<longrightarrow>
            insert_op this ctx record =
              ([GetInsertSQL, Require, GetInsertParams, Query (ctx_id ctx) sql ps, Next, Close],
               record,
               Some (RecordError NON_QUERY
                 ''Expected generated id, but insert query returned no row'')))
       \<and> (rows_next rows = Inr (Some (row, rest)) \<longrightarrow>
            insert_op this ctx record =
              ([GetInsertSQL, Require, GetInsertParams, Query (ctx_id ctx) sql ps, Next,
                SetKey (column row 0), Close],
               setKey (mapper this) record (column row 0)))
       \<and> column (v # vs) 0 = v"
  using assms by (simp add: insert_op_def seq_defs column_def)

theorem insert_generated_id_witness:
  "insert_op (exAdapter {generatedId}) (exCtx [Yields [VNum 42]]) (VNull, VStr ''ann'') =
     ([GetInsertSQL, Require, GetInsertParams,
       Query 1 ''INSERT ... RETURNING id'' [VStr ''ann''], Next, SetKey (VNum 42), Close],
      (VNum 42, VStr ''ann''), None)
   \<and> insert_op (exAdapter {generatedId}) (exCtx []) (VNull, VStr ''ann'') =
     ([GetInsertSQL, Require, GetInsertParams,
       Query 1 ''INSERT ... RETURNING id'' [VStr ''ann''], Next, Close],
      (VNull, VStr ''ann''),
      Some (RecordError ''adapter:non-query''
        ''Expected generated id, but insert query returned no row''))"
  using insert_generated_id [of "exAdapter {generatedId}" "''INSERT ... RETURNING id''"
      "exCtx [Yields [VNum 42]]" "exDb [Yields [VNum 42]]" "(VNull, VStr ''ann'')"
      "[VStr ''ann'']" "[Yields [VNum 42]]" "[VNum 42]" "[]"]
    insert_generated_id [of "exAdapter {generatedId}" "''INSERT ... RETURNING id''"
      "exCtx []" "exDb []" "(VNull, VStr ''ann'')" "[VStr ''ann'']" "[]"]
  by (simp add: ex_defs hasMappingFlag_def require_def column_def NON_QUERY_def)

text \<open>
  C4. \<open>insert\<close> with \<open>generatedOnInsert\<close>, and \<open>update\<close> with \<open>generatedOnUpdate\<close>, once the
  statement, the executor and the parameters are there and the executor answers the
  query with a cursor: if the cursor has a row, the calls are one \<open>query\<close>, one \<open>next\<close>,
  one \<open>load\<close> of that row onto the caller's record, one \<open>close\<close>; record and outcome
  are those of \<open>load\<close>. If the cursor has no row, the operation fails with the non-query
  error and the record is as given.
\<close>

theorem generated_row_loaded_once:
  "(getInsertSQL (sqlSource this) = Some sql \<and> require ctx = Inr db
      \<and> getInsertParams (mapper this) record = Inr ps
      \<and> hasMappingFlag (flags (mapper this)) generatedOnInsert
      \<and> query db (ctx_id ctx) sql ps = Inr rows \<longrightarrow>
        (rows_next rows = Inr (Some (row, rest)) \<longrightarrow>
           insert_op this ctx record =
             ([GetInsertSQL, Require, GetInsertParams, Query (ctx_id ctx) sql ps, Next,
               Load row, Close],
              load (mapper this) row record))
      \<and> (rows_next rows = Inr None \<longrightarrow>
           insert_op this ctx record =
             ([GetInsertSQL, Require, GetInsertParams, Query (ctx_id ctx) sql ps, Next, Close],
              record,
              Some (RecordError NON_QUERY
                ''Expected inserted row, but insert query returned no row''))))
   \<and> (getUpdateSQL (sqlSource this) = Some sql' \<and> require ctx = Inr db
      \<and> getUpdateParams (mapper this) record = Inr ps'
      \<and> hasMappingFlag (flags (mapper this)) generatedOnUpdate
      \<and> query db (ctx_id ctx) sql' ps' = Inr rows' \<longrightarrow>
        (rows_next rows' = Inr (Some (row', rest')) \<longrightarrow>
           update this ctx record =
             ([GetUpdateSQL, Require, GetUpdateParams, Query (ctx_id ctx) sql' ps', Next,
               Load row', Close],
              load (mapper this) row' record))
      \<and> (rows_next rows' = Inr None \<longrightarrow>
           update this ctx record =
             ([GetUpdateSQL, Require, GetUpdateParams, Query (ctx_id ctx) sql' ps', Next, Close],
              record,
              Some (RecordError NON_QUERY
                ''Expected updated row, but update query returned no row''))))"
  by (simp add: insert_op_def update_def seq_defs)

theorem generated_row_loaded_once_witness:
  "insert_op (exAdapter {generatedOnInsert, generatedOnUpdate, generatedId})
      (exCtx [Yields [VNum 42, VStr ''Ann'']]) (VNull, VStr ''ann'') =
     ([GetInsertSQL, Require, GetInsertParams,
       Query 1 ''INSERT ... RETURNING id'' [VStr ''ann''], Next,
       Load [VNum 42, VStr ''Ann''], Close],
      (VNum 42, VStr ''Ann''), None)
   \<and> update (exAdapter {generatedOnInsert, generatedOnUpdate, generatedId})
      (exCtx [Yields [VNum 42, VStr ''Ann'']]) (VNull, VStr ''ann'') =
     ([GetUpdateSQL, Require, GetUpdateParams,
       Query 1 ''UPDATE ...'' [VStr ''ann'', VNull], Next,
       Load [VNum 42, VStr ''Ann''], Close],
      (VNum 42, VStr ''Ann''), None)
   \<and> update (exAdapter {generatedOnUpdate}) (exCtx []) (VNull, VStr ''ann'') =
     ([GetUpdateSQL, Require, GetUpdateParams,
       Query 1 ''UPDATE ...'' [VStr ''ann'', VNull], Next, Close],
      (VNull, VStr ''ann''),
      Some (RecordError ''adapter:non-query''
        ''Expected updated row, but update query returned no row''))"
  using generated_row_loaded_once
    [of "exAdapter {generatedOnInsert, generatedOnUpdate, generatedId}"
      "''INSERT ... RETURNING id''" "exCtx [Yields [VNum 42, VStr ''Ann'']]"
      "exDb [Yields [VNum 42, VStr ''Ann'']]" "(VNull, VStr ''ann'')" "[VStr ''ann'']"
      "[Yields [VNum 42, VStr ''Ann'']]" "[VNum 42, VStr ''Ann'']" "[]"
      "''UPDATE ...''" "[VStr ''ann'', VNull]" "[Yields [VNum 42, VStr ''Ann'']]"
      "[VNum 42, VStr ''Ann'']" "[]"]
    generated_row_loaded_once
    [of "exAdapter {generatedOnUpdate}" "''INSERT ... RETURNING id''" "exCtx []" "exDb []"
      "(VNull, VStr ''ann'')" "[VStr ''ann'']" "[]" "[]" "[]"
      "''UPDATE ...''" "[VStr ''ann'', VNull]" "[]" "[]" "[]"]
  by (simp add: ex_defs hasMappingFlag_def require_def column_def NON_QUERY_def)

subsection \<open>selectOne\<close>

text \<open>
  C6. For either call shape, once the context has an executor and the executor
  answers the query with a cursor: if the cursor has no row, \<open>selectOne\<close> returns
  \<open>null\<close> (not an error) after one \<open>next\<close> and one \<open>close\<close>; if it has a row and loading
  that row onto a newly created record succeeds, \<open>selectOne\<close> returns that record, and
  the cursor calls are one \<open>next\<close> followed, after \<open>create\<close> and \<open>load\<close>, by one \<open>close\<close>:
  the rows after the first are never advanced to.
\<close>

theorem selectOne_first_row_only:
  assumes "require ctx = Inr db"
    and "query db (ctx_id ctx) (select_sql this sqlOrParams)
           (select_params sqlOrParams params0) = Inr rows"
  shows "(rows_next rows = Inr None \<longrightarrow>
            selectOne this ctx sqlOrParams params0 =
              (select_pre sqlOrParams @
                 [Require,
                  Query (ctx_id ctx) (select_sql this sqlOrParams)
                    (select_params sqlOrParams params0),
                  Next, Close],
               Inr None))
       \<and> (rows_next rows = Inr (Some (row, rest))
            \<and> load (mapper this) row (create (mapper this)) = (record, None) \<longrightarrow>
            selectOne this ctx sqlOrParams params0 =
              (select_pre sqlOrParams @
                 [Require,
                  Query (ctx_id ctx) (select_sql this sqlOrParams)
                    (select_params sqlOrParams params0),
                  Next, Create, Load row, Close],
               Inr (Some record)))"
  using assms
  by (cases sqlOrParams)
     (simp_all add: selectOne_def select_pre_def select_sql_def select_params_def seq_defs
        toRecord_def)

theorem selectOne_first_row_only_witness:
  "selectOne (exAdapter {}) (exCtx []) (Inl ''SELECT 1'') None =
     ([Require, Query 1 ''SELECT 1'' [], Next, Close], Inr None)
   \<and> selectOne (exAdapter {})
       (exCtx [Yields [VNum 7, VStr ''bob''], Yields [VNum 8, VStr ''bo'']])
       (Inr [(''status'', VStr ''active'')]) None =
     ([GetSelectSQL [''status''], Require,
       Query 1 ''SELECT ... BY status'' [VStr ''active''], Next, Create,
       Load [VNum 7, VStr ''bob''], Close],
      Inr (Some (VNum 7, VStr ''bob'')))"
  using selectOne_first_row_only [of "exCtx []" "exDb []" "exAdapter {}" "Inl ''SELECT 1''"
      None "[]"]
    selectOne_first_row_only
      [of "exCtx [Yields [VNum 7, VStr ''bob''], Yields [VNum 8, VStr ''bo'']]"
        "exDb [Yields [VNum 7, VStr ''bob''], Yields [VNum 8, VStr ''bo'']]" "exAdapter {}"
        "Inr [(''status'', VStr ''active'')]" None
        "[Yields [VNum 7, VStr ''bob''], Yields [VNum 8, VStr ''bo'']]"
        "[VNum 7, VStr ''bob'']" "[Yields [VNum 8, VStr ''bo'']]" "(VNum 7, VStr ''bob'')"]
  by (simp add: ex_defs require_def column_def select_pre_def select_sql_def
      select_params_def toParamArray_def)

subsection \<open>Select by filter mapping\<close>

text \<open>
  C8. When \<open>selectOne\<close> or \<open>selectMany\<close> is given a filter mapping and no SQL text, and
  the context has an executor, the first three calls are: the statement source is asked
  for the select statement over the mapping's keys in enumeration order; the executor
  is looked up; the executor is queried with that statement and the mapping's values,
  in the same order, as positional parameters. A third argument, if given, is not used.
  Exactly one query is issued.
\<close>

theorem select_by_filter_mapping:
  assumes "require ctx = Inr db"
  shows "take 3 (fst (selectOne this ctx (Inr m) params0)) =
           [GetSelectSQL (map fst m), Require,
            Query (ctx_id ctx) (getSelectSQL (sqlSource this) (map fst m)) (map snd m)]
       \<and> take 3 (fst (gen_next (selectMany this ctx (Inr m) params0))) =
           [GetSelectSQL (map fst m), Require,
            Query (ctx_id ctx) (getSelectSQL (sqlSource this) (map fst m)) (map snd m)]
       \<and> length (filter is_query (fst (selectOne this ctx (Inr m) params0))) = 1
       \<and> length (filter is_query (fst (gen_next (selectMany this ctx (Inr m) params0)))) = 1"
  using assms
  by (simp add: selectOne_def selectMany_def gen_next_def gen_body_def loop_step_def
      toRecord_def toParamArray_def seq_defs
      split: sum.splits option.splits prod.splits)

theorem select_by_filter_mapping_witness:
  "take 3 (fst (selectOne (exAdapter {}) (exCtx []) (Inr [(''status'', VStr ''active'')]) None)) =
     [GetSelectSQL [''status''], Require, Query 1 ''SELECT ... BY status'' [VStr ''active'']]
   \<and> take 3 (fst (gen_next
        (selectMany (exAdapter {}) (exCtx []) (Inr [(''status'', VStr ''active'')]) None))) =
     [GetSelectSQL [''status''], Require, Query 1 ''SELECT ... BY status'' [VStr ''active'']]"
  using select_by_filter_mapping [of "exCtx []" "exDb []" "exAdapter {}"
      "[(''status'', VStr ''active'')]" None]
  by (simp add: ex_defs require_def)

subsection \<open>The executor comes from the context\<close>

text \<open>
  C10. The adapter holds a statement source and a mapper only; every operation looks
  the executor up in the context it is called with. In a context without a database
  API the lookup throws; whenever the lookup throws, the operation fails with the
  lookup's error and no executor call is made: \<open>insert\<close>, \<open>update\<close> and \<open>delete\<close>
  (with their statement defined) stop after the statement lookup and the executor
  lookup, with the record as given and no parameter extraction; \<open>selectOne\<close> stops after
  resolving its SQL and the lookup; \<open>selectMany\<close>, whose body runs at the first
  \<open>next()\<close>, rejects that first \<open>next()\<close> the same way and is completed. When the
  lookup answers with an executor, the write paths call, in this order, the statement
  lookup, the executor lookup, the parameter extraction; the read paths resolve the
  SQL, look the executor up and query it. When the statement is missing the executor
  is not looked up.
\<close>

theorem executor_required_from_context:
  "(require ctx = Inl e \<longrightarrow>
      (getInsertSQL (sqlSource this) = Some isql \<longrightarrow>
         insert_op this ctx record = ([GetInsertSQL, Require], record, Some e))
    \<and> (getUpdateSQL (sqlSource this) = Some usql \<longrightarrow>
         update this ctx record = ([GetUpdateSQL, Require], record, Some e))
    \<and> (getDeleteSQL (sqlSource this) = Some dsql \<longrightarrow>
         delete this ctx record = ([GetDeleteSQL, Require], record, Some e))
    \<and> selectOne this ctx sqlOrParams params0 = (select_pre sqlOrParams @ [Require], Inl e)
    \<and> gen_next (selectMany this ctx sqlOrParams params0) =
         (select_pre sqlOrParams @ [Require], Rejected e,
          (selectMany this ctx sqlOrParams params0)\<lparr>g_state := Completed\<rparr>))
   \<and> (require ctx = Inr db \<longrightarrow>
      (getInsertSQL (sqlSource this) = Some isql \<longrightarrow>
         take 3 (fst (insert_op this ctx record)) = [GetInsertSQL, Require, GetInsertParams])
    \<and> (getUpdateSQL (sqlSource this) = Some usql \<longrightarrow>
         take 3 (fst (update this ctx record)) = [GetUpdateSQL, Require, GetUpdateParams])
    \<and> (getDeleteSQL (sqlSource this) = Some dsql \<longrightarrow>
         take 3 (fst (delete this ctx record)) = [GetDeleteSQL, Require, GetDeleteParams])
    \<and> take (Suc (Suc (length (select_pre sqlOrParams))))
         (fst (selectOne this ctx sqlOrParams params0)) =
         select_pre sqlOrParams @
           [Require,
            Query (ctx_id ctx) (select_sql this sqlOrParams) (select_params sqlOrParams params0)]
    \<and> take (Suc (Suc (length (select_pre sqlOrParams))))
         (fst (gen_next (selectMany this ctx sqlOrParams params0))) =
         select_pre sqlOrParams @
           [Require,
            Query (ctx_id ctx) (select_sql this sqlOrParams) (select_params sqlOrParams params0)])
   \<and> (getInsertSQL (sqlSource this) = None \<longrightarrow>
        Require \<notin> set (fst (insert_op this ctx record)))
   \<and> (getUpdateSQL (sqlSource this) = None \<longrightarrow>
        Require \<notin> set (fst (update this ctx record)))
   \<and> (getDeleteSQL (sqlSource this) = None \<longrightarrow>
        Require \<notin> set (fst (delete this ctx record)))
   \<and> (dbApi ctx = None \<longrightarrow> require ctx = Inl RequireError)
   \<and> (dbApi ctx = Some db \<longrightarrow> require ctx = Inr db)
   \<and> this = \<lparr>sqlSource = sqlSource this, mapper = mapper this\<rparr>
   \<and> selectMany this ctx sqlOrParams params0 =
        \<lparr>g_this = this, g_ctx = ctx, g_sqlOrParams = sqlOrParams, g_params = params0,
         g_state = Fresh\<rparr>"
  by (cases sqlOrParams)
     (simp_all add: insert_op_def update_def delete_def selectOne_def selectMany_def
        gen_next_def gen_body_def loop_step_def toRecord_def require_def seq_defs
        select_pre_def select_sql_def select_params_def
        split: sum.split option.split prod.split)

theorem executor_required_from_context_witness:
  "insert_op (exAdapter {generatedId}) exNoDbCtx (VNull, VStr ''ann'') =
     ([GetInsertSQL, Require], (VNull, VStr ''ann''), Some RequireError)
   \<and> update (exAdapter {generatedId}) exNoDbCtx (VNull, VStr ''ann'') =
     ([GetUpdateSQL, Require], (VNull, VStr ''ann''), Some RequireError)
   \<and> delete (exAdapter {generatedId}) exNoDbCtx (VNull, VStr ''ann'') =
     ([GetDeleteSQL, Require], (VNull, VStr ''ann''), Some RequireError)
   \<and> selectOne (exAdapter {generatedId}) exNoDbCtx (Inr [(''status'', VStr ''active'')]) None =
     ([GetSelectSQL [''status''], Require], Inl RequireError)
   \<and> fst (gen_next (selectMany (exAdapter {generatedId}) exNoDbCtx (Inl ''SELECT 1'') None)) =
     [Require]
   \<and> take 3 (fst (insert_op (exAdapter {generatedId}) (exCtx []) (VNull, VStr ''ann''))) =
     [GetInsertSQL, Require, GetInsertParams]
   \<and> take 2 (fst (selectOne (exAdapter {generatedId}) (exCtx []) (Inl ''SELECT 1'') None)) =
     [Require, Query 1 ''SELECT 1'' []]"
  using executor_required_from_context [of exNoDbCtx RequireError "exAdapter {generatedId}"
      "''INSERT ... RETURNING id''" "(VNull, VStr ''ann'')" "''UPDATE ...''" "''DELETE ...''"
      "Inr [(''status'', VStr ''active'')]" None "exDb []"]
    executor_required_from_context [of exNoDbCtx RequireError "exAdapter {generatedId}"
      "''INSERT ... RETURNING id''" "(VNull, VStr ''ann'')" "''UPDATE ...''" "''DELETE ...''"
      "Inl ''SELECT 1''" None "exDb []"]
    executor_required_from_context [of "exCtx []" RequireError "exAdapter {generatedId}"
      "''INSERT ... RETURNING id''" "(VNull, VStr ''ann'')" "''UPDATE ...''" "''DELETE ...''"
      "Inl ''SELECT 1''" None "exDb []"]
  by (simp add: ex_defs select_pre_def select_sql_def select_params_def toParamArray_def
      insert_op_def selectOne_def selectMany_def gen_next_def gen_body_def loop_step_def
      seq_defs require_def hasMappingFlag_def)

subsection \<open>Cursor lifecycle\<close>

text \<open>Cursors opened by a sequence of calls, and what one generator step does to them.\<close>

lemma opened_append: "opened ctx (t @ t') = opened ctx t + opened ctx t'"
  by (simp add: opened_def split: sum.splits)

lemma opened_Nil: "opened ctx [] = 0"
  by (simp add: opened_def split: sum.splits)

lemma loop_step_close:
  "count_list (fst (loop_step this rows)) Close =
     (if suspended (snd (snd (loop_step this rows))) then 0 else 1)"
  by (simp add: loop_step_def toRecord_def seq_defs
        split: sum.split option.split prod.split)

lemma loop_step_no_query: "filter (returns_cursor db) (fst (loop_step this rows)) = []"
  by (simp add: loop_step_def toRecord_def seq_defs returns_cursor_def
        split: sum.split option.split prod.split)

lemma loop_step_started: "snd (snd (loop_step this rows)) \<noteq> Fresh"
  by (simp add: loop_step_def toRecord_def seq_defs
        split: sum.split option.split prod.split)

lemma gen_body_balance:
  "count_list (fst (gen_body g)) Close
     + (if suspended (snd (snd (gen_body g))) then 1 else 0)
   = opened (g_ctx g) (fst (gen_body g)) + in_use g"
  by (simp add: gen_body_def after_def require_def opened_def returns_cursor_def in_use_def
        loop_step_close loop_step_no_query
        split: gen.split sum.split option.split)

lemma gen_body_started:
  "opened (g_ctx g) (fst (gen_body g))
     + (if snd (snd (gen_body g)) = Fresh then 1 else 0)
   \<le> (if g_state g = Fresh then 1 else 0)"
  by (simp add: gen_body_def after_def require_def opened_def returns_cursor_def
        loop_step_started loop_step_no_query
        split: gen.split sum.split option.split)

lemma act_ctx: "g_ctx (snd (snd (act a g))) = g_ctx g"
  by (cases a) (simp_all add: act_def gen_next_def gen_return_def split: gen.split prod.split)

lemma act_balance:
  "count_list (fst (act a g)) Close + in_use (snd (snd (act a g)))
     = opened (g_ctx g) (fst (act a g)) + in_use g"
proof (cases a)
  case Pull
  obtain t it st where b: "gen_body g = (t, it, st)" by (cases "gen_body g") auto
  show ?thesis using gen_body_balance [of g] b Pull
    by (simp add: act_def gen_next_def in_use_def)
next
  case Return
  show ?thesis using Return
    by (simp add: act_def gen_return_def in_use_def opened_Nil opened_def returns_cursor_def
          split: gen.split sum.split)
qed

lemma act_started:
  "opened (g_ctx g) (fst (act a g))
     + (if g_state (snd (snd (act a g))) = Fresh then 1 else 0)
   \<le> (if g_state g = Fresh then 1 else (0::nat))"
proof (cases a)
  case Pull
  obtain t it st where b: "gen_body g = (t, it, st)" by (cases "gen_body g") auto
  show ?thesis using gen_body_started [of g] b Pull
    by (simp add: act_def gen_next_def)
next
  case Return
  show ?thesis using Return
    by (simp add: act_def gen_return_def opened_Nil opened_def returns_cursor_def
          split: gen.split sum.split)
qed


lemma consume_ctx: "g_ctx (snd (snd (consume acts g))) = g_ctx g"
proof (induction acts arbitrary: g)
  case Nil
  show ?case by simp
next
  case (Cons a acts)
  obtain t it g' where a: "act a g = (t, it, g')" by (cases "act a g") auto
  obtain t' its g'' where c: "consume acts g' = (t', its, g'')" by (cases "consume acts g'") auto
  have "g_ctx g' = g_ctx g" using act_ctx [of a g] a by simp
  moreover have "g_ctx g'' = g_ctx g'" using Cons.IH [of g'] c by simp
  ultimately show ?case using a c by simp
qed

lemma consume_balance:
  "count_list (fst (consume acts g)) Close + in_use (snd (snd (consume acts g)))
     = opened (g_ctx g) (fst (consume acts g)) + in_use g"
proof (induction acts arbitrary: g)
  case Nil
  show ?case by (simp add: opened_Nil)
next
  case (Cons a acts)
  obtain t it g' where a: "act a g = (t, it, g')" by (cases "act a g") auto
  obtain t' its g'' where c: "consume acts g' = (t', its, g'')" by (cases "consume acts g'") auto
  have ctx: "g_ctx g' = g_ctx g" using act_ctx [of a g] a by simp
  have 1: "count_list t Close + in_use g' = opened (g_ctx g) t + in_use g"
    using act_balance [of a g] a by simp
  have 2: "count_list t' Close + in_use g'' = opened (g_ctx g) t' + in_use g'"
    using Cons.IH [of g'] c ctx by simp
  show ?case using a c 1 2 by (simp add: opened_append)
qed

lemma consume_started:
  "opened (g_ctx g) (fst (consume acts g))
     + (if g_state (snd (snd (consume acts g))) = Fresh then 1 else 0)
   \<le> (if g_state g = Fresh then 1 else (0::nat))"
proof (induction acts arbitrary: g)
  case Nil
  show ?case by (simp add: opened_Nil)
next
  case (Cons a acts)
  obtain t it g' where a: "act a g = (t, it, g')" by (cases "act a g") auto
  obtain t' its g'' where c: "consume acts g' = (t', its, g'')" by (cases "consume acts g'") auto
  have ctx: "g_ctx g' = g_ctx g" using act_ctx [of a g] a by simp
  have 1: "opened (g_ctx g) t + (if g_state g' = Fresh then 1 else 0)
             \<le> (if g_state g = Fresh then 1 else (0::nat))"
    using act_started [of g a] a by simp
  have 2: "opened (g_ctx g) t' + (if g_state g'' = Fresh then 1 else 0)
             \<le> (if g_state g' = Fresh then 1 else (0::nat))"
    using Cons.IH [of g'] c ctx by simp
  show ?case using a c 1 2 by (simp add: opened_append split: if_splits)
qed

lemma consume_append:
  "consume (as @ bs) g =
     (case consume as g of (t, its, g') \<Rightarrow>
        (case consume bs g' of (t', its', g'') \<Rightarrow> (t @ t', its @ its', g'')))"
  by (induction as arbitrary: g) (simp_all split: prod.split)

lemma writes_balance:
  "count_list (fst (insert_op this ctx record)) Close = opened ctx (fst (insert_op this ctx record))"
  "count_list (fst (update this ctx record)) Close = opened ctx (fst (update this ctx record))"
  "opened ctx (fst (insert_op this ctx record)) \<le> 1"
  "opened ctx (fst (update this ctx record)) \<le> 1"
  by (simp_all add: insert_op_def update_def seq_defs opened_def returns_cursor_def require_def
        split: sum.split option.split prod.split)

lemma selectOne_balance:
  "count_list (fst (selectOne this ctx sqlOrParams params0)) Close
     = opened ctx (fst (selectOne this ctx sqlOrParams params0))"
  "opened ctx (fst (selectOne this ctx sqlOrParams params0)) \<le> 1"
  by (simp_all add: selectOne_def toRecord_def seq_defs opened_def returns_cursor_def require_def
        split: sum.split option.split prod.split)

lemma selectMany_fresh:
  "g_ctx (selectMany this ctx sqlOrParams params0) = ctx"
  "g_state (selectMany this ctx sqlOrParams params0) = Fresh"
  "in_use (selectMany this ctx sqlOrParams params0) = 0"
  by (simp_all add: selectMany_def in_use_def)

lemma first_pull_opens:
  assumes "require ctx = Inr db"
    and "query db (ctx_id ctx) (select_sql this sqlOrParams)
           (select_params sqlOrParams params0) = Inr rows"
  shows "opened ctx (fst (gen_next (selectMany this ctx sqlOrParams params0))) = 1"
  using assms
  by (cases sqlOrParams)
     (simp_all add: gen_next_def gen_body_def selectMany_def after_def require_def opened_def
        returns_cursor_def select_sql_def select_params_def loop_step_no_query
        split: option.splits prod.split)

lemma started_holds_or_closed:
  assumes "require ctx = Inr db"
    and "query db (ctx_id ctx) (select_sql this sqlOrParams)
           (select_params sqlOrParams params0) = Inr rows"
  shows "count_list (fst (consume (Pull # acts) (selectMany this ctx sqlOrParams params0))) Close
           + in_use (snd (snd (consume (Pull # acts) (selectMany this ctx sqlOrParams params0))))
         = 1"
proof -
  let ?g = "selectMany this ctx sqlOrParams params0"
  obtain t it g' where a: "gen_next ?g = (t, it, g')" by (cases "gen_next ?g") auto
  obtain t' its g'' where c: "consume acts g' = (t', its, g'')" by (cases "consume acts g'") auto
  have run: "consume (Pull # acts) ?g = (t @ t', it # its, g'')"
    using a c by (simp add: act_def)
  have one: "opened ctx t = 1" using first_pull_opens [OF assms] a by simp
  have le: "opened ctx (t @ t') \<le> 1"
    using consume_started [of ?g "Pull # acts"] run by (simp add: selectMany_fresh split: if_splits)
  have eq: "opened ctx (t @ t') = 1" using one le by (simp add: opened_append)
  have "count_list (t @ t') Close + in_use g'' = opened ctx (t @ t')"
    using consume_balance [of "Pull # acts" ?g] run by (simp add: selectMany_fresh)
  then show ?thesis using run eq by simp
qed

lemma return_releases: "in_use (snd (snd (consume (acts @ [Return]) g))) = 0"
  by (simp add: consume_append act_def gen_return_def in_use_def split: prod.split gen.split)

lemma settled_releases:
  "(case fst (snd (gen_next g)) of
      Yielded r \<Rightarrow> in_use (snd (snd (gen_next g))) = 1
    | Done \<Rightarrow> in_use (snd (snd (gen_next g))) = 0
    | Rejected e \<Rightarrow> in_use (snd (snd (gen_next g))) = 0)"
  by (simp add: gen_next_def gen_body_def loop_step_def toRecord_def seq_defs in_use_def
        split: gen.split sum.split option.split prod.split)


text \<open>
  C2. Every cursor an operation opens is closed exactly once. For \<open>insert\<close>, \<open>update\<close>
  and \<open>selectOne\<close>, on every path (success, no row, an error from \<open>next\<close>, \<open>load\<close> or
  \<open>setKey\<close>, a failed lookup or query) the number of \<open>close\<close> calls equals the number of
  cursors opened, which is at most one. For \<open>selectMany\<close> and \<open>selectAll\<close>, after any
  sequence of \<open>next()\<close> and \<open>return()\<close> calls by the consumer, the number of \<open>close\<close>
  calls plus the cursor the suspended generator still holds equals the number of cursors
  opened, at most one. The generator holds no cursor after \<open>return()\<close> (the consumer
  left early), nor after a \<open>next()\<close> that settled to done or rejected (the rows ran out,
  or \<open>next\<close> or \<open>load\<close> threw); it holds one exactly while suspended after yielding a
  record. Whenever the executor answers the query with a cursor, the count is one:
  \<open>selectOne\<close>, \<open>insert\<close> in a generated mode and \<open>update\<close> with \<open>generatedOnUpdate\<close> close
  once, and a started \<open>selectMany\<close> has closed once or is still suspended on its cursor.
\<close>

theorem cursor_closed_exactly_once:
  "count_list (fst (insert_op this ctx record)) Close = opened ctx (fst (insert_op this ctx record))
   \<and> count_list (fst (update this ctx record)) Close = opened ctx (fst (update this ctx record))
   \<and> count_list (fst (selectOne this ctx sqlOrParams params0)) Close
       = opened ctx (fst (selectOne this ctx sqlOrParams params0))
   \<and> count_list (fst (consume acts (selectMany this ctx sqlOrParams params0))) Close
         + in_use (snd (snd (consume acts (selectMany this ctx sqlOrParams params0))))
       = opened ctx (fst (consume acts (selectMany this ctx sqlOrParams params0)))
   \<and> count_list (fst (consume acts (selectAll this ctx))) Close
         + in_use (snd (snd (consume acts (selectAll this ctx))))
       = opened ctx (fst (consume acts (selectAll this ctx)))
   \<and> opened ctx (fst (insert_op this ctx record)) \<le> 1
   \<and> opened ctx (fst (update this ctx record)) \<le> 1
   \<and> opened ctx (fst (selectOne this ctx sqlOrParams params0)) \<le> 1
   \<and> opened ctx (fst (consume acts (selectMany this ctx sqlOrParams params0))) \<le> 1
   \<and> in_use (snd (snd (consume (acts @ [Return]) g))) = 0
   \<and> (case fst (snd (gen_next g)) of
        Yielded r \<Rightarrow> in_use (snd (snd (gen_next g))) = 1
      | Done \<Rightarrow> in_use (snd (snd (gen_next g))) = 0
      | Rejected e \<Rightarrow> in_use (snd (snd (gen_next g))) = 0)
   \<and> (require ctx = Inr db
        \<and> query db (ctx_id ctx) (select_sql this sqlOrParams)
             (select_params sqlOrParams params0) = Inr rows \<longrightarrow>
        count_list (fst (selectOne this ctx sqlOrParams params0)) Close = 1
      \<and> count_list (fst (consume (Pull # acts) (selectMany this ctx sqlOrParams params0))) Close
          + in_use (snd (snd (consume (Pull # acts) (selectMany this ctx sqlOrParams params0))))
          = 1)
   \<and> (getInsertSQL (sqlSource this) = Some isql \<and> require ctx = Inr db
        \<and> getInsertParams (mapper this) record = Inr ips
        \<and> (hasMappingFlag (flags (mapper this)) generatedOnInsert
            \<or> hasMappingFlag (flags (mapper this)) generatedId)
        \<and> query db (ctx_id ctx) isql ips = Inr irows \<longrightarrow>
        count_list (fst (insert_op this ctx record)) Close = 1)
   \<and> (getUpdateSQL (sqlSource this) = Some usql \<and> require ctx = Inr db
        \<and> getUpdateParams (mapper this) record = Inr ups
        \<and> hasMappingFlag (flags (mapper this)) generatedOnUpdate
        \<and> query db (ctx_id ctx) usql ups = Inr urows \<longrightarrow>
        count_list (fst (update this ctx record)) Close = 1)"
proof -
  let ?g = "selectMany this ctx sqlOrParams params0"
  have many: "\<And>s p. count_list (fst (consume acts (selectMany this ctx s p))) Close
         + in_use (snd (snd (consume acts (selectMany this ctx s p))))
       = opened ctx (fst (consume acts (selectMany this ctx s p)))"
    using consume_balance [of acts "selectMany this ctx _ _"] by (simp add: selectMany_fresh)
  have c1: "count_list (fst (insert_op this ctx record)) Close
              = opened ctx (fst (insert_op this ctx record))"
    by (rule writes_balance)
  have c2: "count_list (fst (update this ctx record)) Close
              = opened ctx (fst (update this ctx record))"
    by (rule writes_balance)
  have c3: "count_list (fst (selectOne this ctx sqlOrParams params0)) Close
              = opened ctx (fst (selectOne this ctx sqlOrParams params0))"
    by (rule selectOne_balance)
  have c4: "count_list (fst (consume acts ?g)) Close + in_use (snd (snd (consume acts ?g)))
              = opened ctx (fst (consume acts ?g))"
    by (rule many)
  have c5: "count_list (fst (consume acts (selectAll this ctx))) Close
              + in_use (snd (snd (consume acts (selectAll this ctx))))
              = opened ctx (fst (consume acts (selectAll this ctx)))"
    unfolding selectAll_def by (rule many)
  have c6: "opened ctx (fst (insert_op this ctx record)) \<le> 1" by (rule writes_balance)
  have c7: "opened ctx (fst (update this ctx record)) \<le> 1" by (rule writes_balance)
  have c8: "opened ctx (fst (selectOne this ctx sqlOrParams params0)) \<le> 1"
    by (rule selectOne_balance)
  have c9: "opened ctx (fst (consume acts ?g)) \<le> 1"
    using consume_started [of ?g acts] by (simp add: selectMany_fresh split: if_splits)
  have c10: "in_use (snd (snd (consume (acts @ [Return]) g))) = 0" by (rule return_releases)
  have c11: "(case fst (snd (gen_next g)) of
        Yielded r \<Rightarrow> in_use (snd (snd (gen_next g))) = 1
      | Done \<Rightarrow> in_use (snd (snd (gen_next g))) = 0
      | Rejected e \<Rightarrow> in_use (snd (snd (gen_next g))) = 0)"
    by (rule settled_releases)
  have c12: "require ctx = Inr db
        \<and> query db (ctx_id ctx) (select_sql this sqlOrParams)
             (select_params sqlOrParams params0) = Inr rows \<longrightarrow>
        count_list (fst (selectOne this ctx sqlOrParams params0)) Close = 1
      \<and> count_list (fst (consume (Pull # acts) ?g)) Close
          + in_use (snd (snd (consume (Pull # acts) ?g))) = 1"
  proof (intro impI conjI)
    assume h: "require ctx = Inr db
        \<and> query db (ctx_id ctx) (select_sql this sqlOrParams)
             (select_params sqlOrParams params0) = Inr rows"
    show "count_list (fst (selectOne this ctx sqlOrParams params0)) Close = 1"
      using h
      by (cases sqlOrParams)
         (simp_all add: selectOne_def toRecord_def seq_defs select_sql_def select_params_def
            split: sum.split option.split prod.split)
    show "count_list (fst (consume (Pull # acts) ?g)) Close
          + in_use (snd (snd (consume (Pull # acts) ?g))) = 1"
      using h by (intro started_holds_or_closed [of ctx db _ _ _ rows]) simp_all
  qed
  have c13: "getInsertSQL (sqlSource this) = Some isql \<and> require ctx = Inr db
        \<and> getInsertParams (mapper this) record = Inr ips
        \<and> (hasMappingFlag (flags (mapper this)) generatedOnInsert
            \<or> hasMappingFlag (flags (mapper this)) generatedId)
        \<and> query db (ctx_id ctx) isql ips = Inr irows \<longrightarrow>
        count_list (fst (insert_op this ctx record)) Close = 1"
    by (simp add: insert_op_def seq_defs split: sum.split option.split prod.split)
  have c14: "getUpdateSQL (sqlSource this) = Some usql \<and> require ctx = Inr db
        \<and> getUpdateParams (mapper this) record = Inr ups
        \<and> hasMappingFlag (flags (mapper this)) generatedOnUpdate
        \<and> query db (ctx_id ctx) usql ups = Inr urows \<longrightarrow>
        count_list (fst (update this ctx record)) Close = 1"
    by (simp add: update_def seq_defs split: sum.split option.split prod.split)
  show ?thesis
    by (intro conjI c1 c2 c3 c4 c5 c6 c7 c8 c9 c10 c11 c12 c13 c14)
qed

theorem cursor_closed_exactly_once_witness:
  "count_list (fst (insert_op (exBadAdapter {generatedOnInsert, generatedOnUpdate})
       (exCtx [Yields [VNum 1, VStr ''a''], Yields [VNum 2, VStr ''b'']])
       (VNull, VStr ''ann''))) Close = 1
   \<and> snd (snd (insert_op (exBadAdapter {generatedOnInsert, generatedOnUpdate})
       (exCtx [Yields [VNum 1, VStr ''a''], Yields [VNum 2, VStr ''b'']])
       (VNull, VStr ''ann''))) = Some (External ''load'')
   \<and> count_list (fst (update (exBadAdapter {generatedOnInsert, generatedOnUpdate})
       (exCtx [Yields [VNum 1, VStr ''a''], Yields [VNum 2, VStr ''b'']])
       (VNull, VStr ''ann''))) Close = 1
   \<and> count_list (fst (selectOne (exBadAdapter {generatedOnInsert, generatedOnUpdate})
       (exCtx [Yields [VNum 1, VStr ''a''], Yields [VNum 2, VStr ''b'']])
       (Inl ''SELECT 1'') None)) Close = 1
   \<and> consume [Pull, Return, Pull]
       (selectMany (exAdapter {})
          (exCtx [Yields [VNum 1, VStr ''a''], Yields [VNum 2, VStr ''b'']])
          (Inl ''SELECT 1'') None) =
     ([Require, Query 1 ''SELECT 1'' [], Next, Create, Load [VNum 1, VStr ''a''], Close],
      [Yielded (VNum 1, VStr ''a''), Done, Done],
      (selectMany (exAdapter {})
          (exCtx [Yields [VNum 1, VStr ''a''], Yields [VNum 2, VStr ''b'']])
          (Inl ''SELECT 1'') None)\<lparr>g_state := Completed\<rparr>)
   \<and> count_list (fst (consume [Pull, Return, Pull]
       (selectMany (exAdapter {})
          (exCtx [Yields [VNum 1, VStr ''a''], Yields [VNum 2, VStr ''b'']])
          (Inl ''SELECT 1'') None))) Close = 1"
  using cursor_closed_exactly_once
    [of "exBadAdapter {generatedOnInsert, generatedOnUpdate}"
      "exCtx [Yields [VNum 1, VStr ''a''], Yields [VNum 2, VStr ''b'']]"
      "(VNull, VStr ''ann'')" "Inl ''SELECT 1''" None "[Return, Pull]"
      "selectMany (exAdapter {}) (exCtx []) (Inl ''SELECT 1'') None"
      "exDb [Yields [VNum 1, VStr ''a''], Yields [VNum 2, VStr ''b'']]"
      "[Yields [VNum 1, VStr ''a''], Yields [VNum 2, VStr ''b'']]"
      "''INSERT ... RETURNING id''" "[VStr ''ann'']"
      "[Yields [VNum 1, VStr ''a''], Yields [VNum 2, VStr ''b'']]"
      "''UPDATE ...''" "[VStr ''ann'', VNull]"
      "[Yields [VNum 1, VStr ''a''], Yields [VNum 2, VStr ''b'']]"]
    cursor_closed_exactly_once
    [of "exAdapter {}"
      "exCtx [Yields [VNum 1, VStr ''a''], Yields [VNum 2, VStr ''b'']]"
      "(VNull, VStr ''ann'')" "Inl ''SELECT 1''" None "[Return, Pull]"
      "selectMany (exAdapter {}) (exCtx []) (Inl ''SELECT 1'') None"
      "exDb [Yields [VNum 1, VStr ''a''], Yields [VNum 2, VStr ''b'']]"
      "[Yields [VNum 1, VStr ''a''], Yields [VNum 2, VStr ''b'']]"
      "''INSERT ... RETURNING id''" "[VStr ''ann'']"
      "[Yields [VNum 1, VStr ''a''], Yields [VNum 2, VStr ''b'']]"
      "''UPDATE ...''" "[VStr ''ann'', VNull]"
      "[Yields [VNum 1, VStr ''a''], Yields [VNum 2, VStr ''b'']]"]
  by (simp add: ex_defs insert_op_def update_def selectOne_def selectMany_def toRecord_def
      act_def gen_next_def gen_return_def gen_body_def loop_step_def seq_defs require_def
      hasMappingFlag_def select_sql_def select_params_def toParamArray_def column_def)

subsection \<open>selectMany\<close>

lemma toRecord_ok:
  assumes "loads_ok this r"
  shows "toRecord this r = ([Create, Load r], Inr (loaded this r))"
  using assms
  by (cases "load (mapper this) r (create (mapper this))")
     (simp add: toRecord_def loaded_def loads_ok_def)

lemma pull_suspended_row:
  assumes "g_state g = AtYield (Yields r # rest)" and "loads_ok (g_this g) r"
  shows "act Pull g = (row_calls r, Yielded (loaded (g_this g) r), g\<lparr>g_state := AtYield rest\<rparr>)"
  using assms
  by (simp add: act_def gen_next_def gen_body_def loop_step_def toRecord_ok seq_defs
        row_calls_def)

lemma pull_suspended_end:
  assumes "g_state g = AtYield []"
  shows "act Pull g = ([Next, Close], Done, g\<lparr>g_state := Completed\<rparr>)"
  using assms by (simp add: act_def gen_next_def gen_body_def loop_step_def seq_defs)

lemma drain_suspended:
  assumes "list_all (loads_ok (g_this g)) rs" and "g_state g = AtYield (map Yields rs)"
  shows "consume (replicate (Suc (length rs)) Pull) g =
           (concat (map row_calls rs) @ [Next, Close],
            map (\<lambda>r. Yielded (loaded (g_this g) r)) rs @ [Done],
            g\<lparr>g_state := Completed\<rparr>)"
  using assms
proof (induction rs arbitrary: g)
  case Nil
  then show ?case by (simp add: pull_suspended_end)
next
  case (Cons r rs)
  let ?g' = "g\<lparr>g_state := AtYield (map Yields rs)\<rparr>"
  have step: "act Pull g = (row_calls r, Yielded (loaded (g_this g) r), ?g')"
    using Cons.prems by (intro pull_suspended_row) simp_all
  have rest: "consume (replicate (Suc (length rs)) Pull) ?g' =
           (concat (map row_calls rs) @ [Next, Close],
            map (\<lambda>r. Yielded (loaded (g_this ?g') r)) rs @ [Done],
            ?g'\<lparr>g_state := Completed\<rparr>)"
    using Cons.prems by (intro Cons.IH) simp_all
  show ?case using step rest by simp
qed

lemma completed_inert:
  assumes "g_state g = Completed"
  shows "consume acts g = ([], map (\<lambda>a. Done) acts, g)"
  using assms
proof (induction acts)
  case Nil
  show ?case by simp
next
  case (Cons a acts)
  have "act a g = ([], Done, g)"
    using Cons.prems by (cases a) (simp_all add: act_def gen_next_def gen_return_def gen_body_def)
  then show ?case using Cons by simp
qed

lemma first_pull:
  assumes "require ctx = Inr db"
    and "query db (ctx_id ctx) (select_sql this sqlOrParams)
           (select_params sqlOrParams params0) = Inr rows"
  shows "act Pull (selectMany this ctx sqlOrParams params0) =
           (case loop_step this rows of (t, it, st) \<Rightarrow>
             (select_pre sqlOrParams @
               [Require, Query (ctx_id ctx) (select_sql this sqlOrParams)
                  (select_params sqlOrParams params0)] @ t,
              it, (selectMany this ctx sqlOrParams params0)\<lparr>g_state := st\<rparr>))"
  using assms
  by (cases sqlOrParams)
     (simp_all add: act_def gen_next_def gen_body_def selectMany_def after_def
        select_pre_def select_sql_def select_params_def split: prod.split)

text \<open>
  C7. When the context has an executor, the executor answers the query with a cursor
  of the N rows \<open>rs\<close>, and each row loads onto a newly created record without error,
  a consumer that calls \<open>next()\<close> until done (N + 1 calls) receives N records, the
  i-th being a newly created record loaded with the i-th row, then done. The calls are
  the SQL resolution, the executor lookup, one query, then for each row in cursor order
  \<open>next\<close>, \<open>create\<close>, \<open>load\<close> of that row, then the \<open>next\<close> that finds no row and
  \<open>close\<close>. The completed generator cannot be restarted: every further call on it
  settles to done and makes no call on any collaborator. A traversal issues exactly
  one query, so two calls of \<open>selectMany\<close>, each traversed, issue two.
\<close>

theorem selectMany_yields_every_row:
  assumes "require ctx = Inr db"
    and "query db (ctx_id ctx) (select_sql this sqlOrParams)
           (select_params sqlOrParams params0) = Inr (map Yields rs)"
    and "list_all (loads_ok this) rs"
  shows "consume (replicate (Suc (length rs)) Pull) (selectMany this ctx sqlOrParams params0) =
           (select_pre sqlOrParams @
              [Require, Query (ctx_id ctx) (select_sql this sqlOrParams)
                 (select_params sqlOrParams params0)] @
              concat (map row_calls rs) @ [Next, Close],
            map (\<lambda>r. Yielded (loaded this r)) rs @ [Done],
            (selectMany this ctx sqlOrParams params0)\<lparr>g_state := Completed\<rparr>)
       \<and> consume acts ((selectMany this ctx sqlOrParams params0)\<lparr>g_state := Completed\<rparr>) =
           ([], map (\<lambda>a. Done) acts,
            (selectMany this ctx sqlOrParams params0)\<lparr>g_state := Completed\<rparr>)
       \<and> length (filter is_query
            (fst (consume (replicate (Suc (length rs)) Pull)
                   (selectMany this ctx sqlOrParams params0)))) = 1
       \<and> length (filter is_query
            (fst (consume (replicate (Suc (length rs)) Pull)
                   (selectMany this ctx sqlOrParams params0)) @
             fst (consume (replicate (Suc (length rs)) Pull)
                   (selectMany this ctx sqlOrParams params0)))) = 2"
proof -
  let ?g = "selectMany this ctx sqlOrParams params0"
  let ?q = "Query (ctx_id ctx) (select_sql this sqlOrParams) (select_params sqlOrParams params0)"
  have this_g: "g_this ?g = this" by (simp add: selectMany_def)
  have run: "consume (replicate (Suc (length rs)) Pull) ?g =
           (select_pre sqlOrParams @ [Require, ?q] @ concat (map row_calls rs) @ [Next, Close],
            map (\<lambda>r. Yielded (loaded this r)) rs @ [Done], ?g\<lparr>g_state := Completed\<rparr>)"
  proof (cases rs)
    case Nil
    have "act Pull ?g =
            (select_pre sqlOrParams @ [Require, ?q] @ [Next, Close], Done,
             ?g\<lparr>g_state := Completed\<rparr>)"
      using first_pull [OF assms(1,2)] Nil by (simp add: loop_step_def seq_defs)
    then show ?thesis using Nil by simp
  next
    case (Cons r rs')
    let ?g' = "?g\<lparr>g_state := AtYield (map Yields rs')\<rparr>"
    have ok: "loads_ok this r" "list_all (loads_ok this) rs'" using assms(3) Cons by simp_all
    have step: "act Pull ?g =
            (select_pre sqlOrParams @ [Require, ?q] @ row_calls r, Yielded (loaded this r), ?g')"
      using first_pull [OF assms(1,2)] Cons ok(1)
      by (simp add: loop_step_def toRecord_ok seq_defs row_calls_def)
    have rest: "consume (replicate (Suc (length rs')) Pull) ?g' =
           (concat (map row_calls rs') @ [Next, Close],
            map (\<lambda>r. Yielded (loaded (g_this ?g') r)) rs' @ [Done],
            ?g'\<lparr>g_state := Completed\<rparr>)"
      using ok(2) this_g by (intro drain_suspended) simp_all
    show ?thesis using step rest Cons this_g by simp
  qed
  have inert: "consume acts (?g\<lparr>g_state := Completed\<rparr>) =
           ([], map (\<lambda>a. Done) acts, ?g\<lparr>g_state := Completed\<rparr>)"
    by (intro completed_inert) simp
  have flat: "filter is_query (concat (map row_calls rs)) = []"
    by (induction rs) (simp_all add: row_calls_def)
  have pre: "filter is_query (select_pre sqlOrParams) = []"
    by (simp add: select_pre_def split: sum.split)
  have one: "length (filter is_query (fst (consume (replicate (Suc (length rs)) Pull) ?g))) = 1"
    unfolding run by (simp add: flat pre)
  show ?thesis using run inert one by simp
qed

theorem selectMany_yields_every_row_witness:
  "list_all (loads_ok (exAdapter {})) [[VNum 1, VStr ''a''], [VNum 2, VStr ''b'']]
   \<and> consume [Pull, Pull, Pull]
       (selectMany (exAdapter {})
          (exCtx [Yields [VNum 1, VStr ''a''], Yields [VNum 2, VStr ''b'']])
          (Inr [(''status'', VStr ''active'')]) None) =
     ([GetSelectSQL [''status''], Require,
       Query 1 ''SELECT ... BY status'' [VStr ''active''],
       Next, Create, Load [VNum 1, VStr ''a''],
       Next, Create, Load [VNum 2, VStr ''b''],
       Next, Close],
      [Yielded (VNum 1, VStr ''a''), Yielded (VNum 2, VStr ''b''), Done],
      (selectMany (exAdapter {})
          (exCtx [Yields [VNum 1, VStr ''a''], Yields [VNum 2, VStr ''b'']])
          (Inr [(''status'', VStr ''active'')]) None)\<lparr>g_state := Completed\<rparr>)
   \<and> consume [Pull, Return]
       ((selectMany (exAdapter {})
          (exCtx [Yields [VNum 1, VStr ''a''], Yields [VNum 2, VStr ''b'']])
          (Inr [(''status'', VStr ''active'')]) None)\<lparr>g_state := Completed\<rparr>) =
     ([], [Done, Done],
      (selectMany (exAdapter {})
          (exCtx [Yields [VNum 1, VStr ''a''], Yields [VNum 2, VStr ''b'']])
          (Inr [(''status'', VStr ''active'')]) None)\<lparr>g_state := Completed\<rparr>)"
  using selectMany_yields_every_row
    [of "exCtx [Yields [VNum 1, VStr ''a''], Yields [VNum 2, VStr ''b'']]"
      "exDb [Yields [VNum 1, VStr ''a''], Yields [VNum 2, VStr ''b'']]"
      "exAdapter {}" "Inr [(''status'', VStr ''active'')]" None
      "[[VNum 1, VStr ''a''], [VNum 2, VStr ''b'']]" "[Pull, Return]"]
  by (simp add: ex_defs require_def select_pre_def select_sql_def select_params_def
      toParamArray_def loads_ok_def loaded_def row_calls_def column_def selectMany_def
      numeral_3_eq_3)

end
